theory Spec2Isabelle
  imports Main
begin

section \<open>The command layer of githd (src/commands.ts)\<close>

text \<open>
  The module drives prompts (pick lists, input boxes), reads the git service and writes
  two context cells of the model. The embedding is sequential: the user is a script of
  answers consumed by the prompts in the order in which the code opens them, every
  effect the code has on the host (a prompt shown, a message, a context stored, a
  command executed) is appended to a trace, and an exception is a value.

  JavaScript strings are modelled as \<open>string\<close>, one \<open>char\<close> per code unit below 256
  (so the no-break space U+00A0 is the single character \<open>CHR 0xA0\<close>).
\<close>

subsection \<open>JavaScript values\<close>

text \<open>A value of type \<open>string\<close> that may also be \<open>null\<close> or \<open>undefined\<close>.\<close>

datatype jsstr = JNull | JUndefined | JStr string

text \<open>Truthiness, as tested by \<open>if (x)\<close>, \<open>!x\<close> and \<open>x || y\<close>: the empty string is falsy.\<close>

fun truthy :: "jsstr \<Rightarrow> bool" where
  "truthy (JStr s) = (s \<noteq> [])"
| "truthy JNull = False"
| "truthy JUndefined = False"

text \<open>String coercion, as done by \<open>+\<close> with a string and by a template literal.\<close>

fun to_string :: "jsstr \<Rightarrow> string" where
  "to_string (JStr s) = s"
| "to_string JNull = ''null''"
| "to_string JUndefined = ''undefined''"

text \<open>
  \<open>String.prototype.trim\<close> removes white space and line terminators at both ends; below
  256 these are TAB, LF, VT, FF, CR, SPACE and the no-break space.
\<close>

definition is_js_space :: "char \<Rightarrow> bool" where
  "is_js_space c =
     (c = CHR 0x09 \<or> c = CHR 0x0A \<or> c = CHR 0x0B \<or> c = CHR 0x0C \<or> c = CHR 0x0D
      \<or> c = CHR 0x20 \<or> c = CHR 0xA0)"

definition trim :: "string \<Rightarrow> string" where
  "trim s = rev (dropWhile is_js_space (rev (dropWhile is_js_space s)))"

datatype error = TypeError | AssertionError

text \<open>
  What a flow comes to: it completes with a value, it raises (inside a promise callback
  this is a rejection nobody handles), or it stays suspended at a prompt for which the
  script holds no answer (prompts wait indefinitely).
\<close>

datatype 'a outcome = Return 'a | Throw error | Pending

subsection \<open>Data of the git service and of the host\<close>

record git_repo =
  root :: string

datatype GitRefType = Head | RemoteHead | Tag

record git_ref =
  ref_type :: GitRefType
  name :: "string option"
  commit :: string

record git_author =
  author_name :: string
  email :: string

datatype uri_query =
    Query string
  | GitQuery string jsstr
    \<comment> \<open>the text \<open>JSON.stringify({ path, ref })\<close>, kept structured\<close>

record vs_uri =
  scheme :: string
  uri_path :: string
  fsPath :: string
  query :: uri_query

record git_committed_file =
  file_uri :: vs_uri
  gitRelativePath :: string

text \<open>
  A pick item is an object with a label and a description; \<open>EnterShaPickItem\<close> adds the
  field \<open>openShaTextBox\<close>, \<open>RepoPickItem\<close> the field \<open>repo\<close>. A field an object does not
  have reads as \<open>undefined\<close>: \<open>False\<close>, respectively \<open>None\<close>.
\<close>

record pick_item =
  label :: string
  description :: string
  openShaTextBox :: bool
  pick_repo :: "git_repo option"

record files_view_context =
  repo :: "git_repo option"
  leftRef :: jsstr
  rightRef :: jsstr
  specifiedPath :: "vs_uri option"

text \<open>
  Modelled from the spec: the type \<open>HistoryViewContext\<close> is declared in model.ts, which is
  not among the sources. Its fields are those the spec lists and commands.ts reads or writes.
\<close>

record history_view_context =
  hrepo :: "git_repo option"
  hspecifiedPath :: "vs_uri option"
  branch :: "string option"
  author :: "string option"
  line :: "nat option"

text \<open>
  The git service and the host, read-only for a flow. The queries of the git service are
  asynchronous in the source; here they are total functions and their failures are not
  modelled. \<open>basename\<close> is \<open>path.basename\<close> of the platform.
\<close>

record env =
  getGitRepos :: "git_repo list"
  getGitRepo :: "vs_uri \<Rightarrow> git_repo option"
  getRefs :: "git_repo option \<Rightarrow> git_ref list"
  getCurrentBranch :: "git_repo option \<Rightarrow> jsstr"
  getAuthors :: "git_repo option \<Rightarrow> git_author list"
  basename :: "string \<Rightarrow> string"
  activeTextEditor :: "(vs_uri \<times> nat) option"
    \<comment> \<open>the document of the active editor and the zero-based line of its cursor\<close>

subsection \<open>The state: model, views, user script and trace\<close>

type_synonym addr = nat

datatype answer = Picked nat | Typed string | Dismissed

datatype input_box_options = Prompt string | PlaceHolder string

datatype event =
    QuickPickShown "pick_item list" string
  | InputBoxShown input_box_options
  | ErrorMessageShown string
  | FilesViewContextSet files_view_context
  | HistoryViewContextSet "addr option"
  | DiffOpened vs_uri vs_uri string
  | LineDiffUpdated string
  | LineDiffDocumentShown
  | CursorTop

text \<open>
  History contexts are objects that the code shares and assigns to in place, so they live
  in a store: \<open>heap\<close> holds the objects, an address is an index into it, and a new object
  is appended. A files context is only ever stored as a new object literal and never
  assigned to, so the model holds its value.
\<close>

record world =
  filesViewContext :: "files_view_context option"
  historyViewContext :: "addr option"
  heap :: "history_view_context list"
  loadAll :: bool
  express :: bool
  answers :: "answer list"
  trace :: "event list"

definition emit :: "event \<Rightarrow> world \<Rightarrow> world" where
  "emit e w = w\<lparr>trace := trace w @ [e]\<rparr>"

text \<open>Continuing with the value of a flow: \<open>await\<close>, or \<open>.then\<close> on a promise.\<close>

fun and_then :: "'a outcome \<times> world \<Rightarrow> ('a \<Rightarrow> world \<Rightarrow> 'b outcome \<times> world) \<Rightarrow> 'b outcome \<times> world" where
  "and_then (Return a, w) k = k a w"
| "and_then (Throw e, w) k = (Throw e, w)"
| "and_then (Pending, w) k = (Pending, w)"

text \<open>
  A function typed \<open>Thenable\<close> that may also return the value \<open>null\<close>, which has no
  \<open>then\<close>: calling \<open>.then\<close> on it raises, \<open>await Promise.resolve\<close> of it is \<open>null\<close>.
\<close>

datatype 'a thenable = Null | Promise "'a outcome"

fun thenable_then :: "'a thenable \<times> world \<Rightarrow> ('a \<Rightarrow> world \<Rightarrow> 'b outcome \<times> world) \<Rightarrow> 'b outcome \<times> world" where
  "thenable_then (Null, w) k = (Throw TypeError, w)"
| "thenable_then (Promise p, w) k = and_then (p, w) k"

fun await_resolve :: "'a option thenable \<times> world \<Rightarrow> 'a option outcome \<times> world" where
  "await_resolve (Null, w) = (Return None, w)"
| "await_resolve (Promise p, w) = (p, w)"

subsection \<open>Prompts of the host\<close>

definition showQuickPick :: "pick_item list \<Rightarrow> string \<Rightarrow> world \<Rightarrow> pick_item option outcome \<times> world" where
  "showQuickPick items placeHolder w =
     (let w1 = emit (QuickPickShown items placeHolder) w in
      case answers w1 of
        [] \<Rightarrow> (Pending, w1)
      | Dismissed # rest \<Rightarrow> (Return None, w1\<lparr>answers := rest\<rparr>)
      | Picked i # rest \<Rightarrow>
          if i < length items then (Return (Some (items ! i)), w1\<lparr>answers := rest\<rparr>)
          else (Pending, w1)
      | Typed s # rest \<Rightarrow> (Pending, w1))"

definition showInputBox :: "input_box_options \<Rightarrow> world \<Rightarrow> jsstr outcome \<times> world" where
  "showInputBox opts w =
     (let w1 = emit (InputBoxShown opts) w in
      case answers w1 of
        [] \<Rightarrow> (Pending, w1)
      | Dismissed # rest \<Rightarrow> (Return JUndefined, w1\<lparr>answers := rest\<rparr>)
      | Typed s # rest \<Rightarrow> (Return (JStr s), w1\<lparr>answers := rest\<rparr>)
      | Picked i # rest \<Rightarrow> (Pending, w1))"

definition showErrorMessage :: "string \<Rightarrow> world \<Rightarrow> world" where
  "showErrorMessage msg w = emit (ErrorMessageShown msg) w"

subsection \<open>The model's cells\<close>

text \<open>
  Modelled from the spec: the setter of \<open>Model.filesViewContext\<close> is in model.ts; it
  replaces the current files context and notifies the view.
\<close>

definition set_filesViewContext :: "files_view_context \<Rightarrow> world \<Rightarrow> world" where
  "set_filesViewContext c w = emit (FilesViewContextSet c) (w\<lparr>filesViewContext := Some c\<rparr>)"

text \<open>
  Modelled from the spec: \<open>Model.setHistoryViewContext\<close> is in model.ts; it replaces the
  current history context by the object it is given and notifies the view.
\<close>

definition setHistoryViewContext :: "addr option \<Rightarrow> world \<Rightarrow> world" where
  "setHistoryViewContext a w = emit (HistoryViewContextSet a) (w\<lparr>historyViewContext := a\<rparr>)"

text \<open>An object literal: a new object, at an address no object had.\<close>

definition new_context :: "history_view_context \<Rightarrow> world \<Rightarrow> addr \<times> world" where
  "new_context c w = (length (heap w), w\<lparr>heap := heap w @ [c]\<rparr>)"

text \<open>Reading a field of the object at an address; an address outside the store is no object.\<close>

definition deref :: "addr \<Rightarrow> world \<Rightarrow> history_view_context outcome" where
  "deref a w = (if a < length (heap w) then Return (heap w ! a) else Throw TypeError)"

definition assign :: "addr \<Rightarrow> (history_view_context \<Rightarrow> history_view_context) \<Rightarrow> world \<Rightarrow> world" where
  "assign a f w = w\<lparr>heap := (heap w)[a := f (heap w ! a)]\<rparr>"

subsection \<open>Building the pick lists\<close>

definition SpaceChar :: string where
  "SpaceChar = [CHR 0xA0]"

definition EnterShaPickItem :: pick_item where
  "EnterShaPickItem =
     \<lparr>label = ''Enter commit SHA'', description = '''', openShaTextBox = True, pick_repo = None\<rparr>"

text \<open>\<open>ref.name || ref.commit\<close>\<close>

definition ref_label :: "git_ref \<Rightarrow> string" where
  "ref_label r = (case name r of Some n \<Rightarrow> if n \<noteq> [] then n else commit r | None \<Rightarrow> commit r)"

definition ref_description :: "git_ref \<Rightarrow> string" where
  "ref_description r =
     (case ref_type r of
        Head \<Rightarrow> commit r
      | Tag \<Rightarrow> ''Tag at '' @ commit r
      | RemoteHead \<Rightarrow> ''Remote branch at '' @ commit r)"

definition branch_item :: "jsstr \<Rightarrow> bool \<Rightarrow> git_ref \<Rightarrow> pick_item" where
  "branch_item currentRef selectCurRef r =
     (let b = \<lparr>label = ref_label r, description = ref_description r,
               openShaTextBox = False, pick_repo = None\<rparr>
      in if selectCurRef
         then b\<lparr>label := (if JStr (label b) = currentRef then ''$(check)'' @ SpaceChar
                           else concat (replicate 4 SpaceChar)) @ '' '' @ label b\<rparr>
         else b)"

definition selectBranch :: "env \<Rightarrow> git_repo option \<Rightarrow> bool \<Rightarrow> bool \<Rightarrow> pick_item list" where
  "selectBranch gitService rp allowEnterSha selectCurRef =
     (let refs = getRefs gitService rp;
          currentRef = getCurrentBranch gitService rp;
          items = map (branch_item currentRef selectCurRef) refs
      in if allowEnterSha then EnterShaPickItem # items else items)"

definition repo_item :: "env \<Rightarrow> git_repo \<Rightarrow> pick_item" where
  "repo_item gitService r =
     \<lparr>label = basename gitService (root r), description = root r,
      openShaTextBox = False, pick_repo = Some r\<rparr>"

definition selectGitRepo :: "env \<Rightarrow> world \<Rightarrow> git_repo option thenable \<times> world" where
  "selectGitRepo gitService w =
     (let repos = getGitRepos gitService in
      if length repos = 0 then (Null, w)
      else if length repos = 1 then (Promise (Return (Some (repos ! 0))), w)
      else
        (case and_then (showQuickPick (map (repo_item gitService) repos) ''Select the git repo'' w)
                (\<lambda>item w1. case item of
                               Some i \<Rightarrow> (Return (pick_repo i), w1)
                             | None \<Rightarrow> (Return None, w1))
         of (p, w2) \<Rightarrow> (Promise p, w2)))"

definition getRefFromQuickPickItem :: "pick_item \<Rightarrow> string \<Rightarrow> world \<Rightarrow> jsstr outcome \<times> world" where
  "getRefFromQuickPickItem item inputBoxTitle w =
     (if openShaTextBox item then showInputBox (Prompt inputBoxTitle) w
      else (Return (JStr (label item)), w))"



subsection \<open>The commands\<close>

text \<open>
  A private method's name starts with an underscore in the source; here it starts with
  \<open>priv_\<close>. \<open>setHistoryViewContext\<close> is handed whatever the caller holds, also \<open>undefined\<close>.
\<close>

definition toGitUri :: "vs_uri \<Rightarrow> jsstr \<Rightarrow> vs_uri" where
  "toGitUri uri ref = uri\<lparr>scheme := ''git'', uri_path := uri_path uri, query := GitQuery (fsPath uri) ref\<rparr>"


definition priv_viewHistory :: "addr option \<Rightarrow> bool \<Rightarrow> world \<Rightarrow> unit outcome \<times> world" where
  "priv_viewHistory context all w = (Return (), setHistoryViewContext context (w\<lparr>loadAll := all\<rparr>))"

definition priv_choseBranchOnPick ::
  "env \<Rightarrow> git_repo \<Rightarrow> string \<Rightarrow> bool \<Rightarrow> bool \<Rightarrow> world \<Rightarrow> pick_item option outcome \<times> world" where
  "priv_choseBranchOnPick gitService rp placeholder allowEnterSha defaultRef w =
     and_then (showQuickPick (selectBranch gitService (Some rp) allowEnterSha False) placeholder w)
       (\<lambda>item w1. (Return item, w1))"

definition viewHistory :: "env \<Rightarrow> world \<Rightarrow> unit outcome \<times> world" where
  "viewHistory gitService w =
     thenable_then (selectGitRepo gitService w)
       (\<lambda>rp w1. case rp of
            Some r \<Rightarrow>
              (case new_context \<lparr>hrepo = Some r, hspecifiedPath = None, branch = None,
                                 author = None, line = None\<rparr> w1
               of (a, w2) \<Rightarrow> priv_viewHistory (Some a) False w2)
          | None \<Rightarrow> (Return (), w1))"





text \<open>Lines 184 to 196 of \<open>viewBranchHistory\<close>: the pick list of refs and its callback.\<close>

definition viewBranchHistory_pick ::
  "env \<Rightarrow> addr option \<Rightarrow> git_repo option \<Rightarrow> string \<Rightarrow> world \<Rightarrow> unit outcome \<times> world" where
  "viewBranchHistory_pick gitService context rp placeHolder w =
     (case rp of
        None \<Rightarrow> (Throw TypeError, w)
      | Some r \<Rightarrow>
          and_then (showQuickPick (selectBranch gitService (Some r) False False)
                      (placeHolder @ '' ('' @ root r @ '')'') w)
            (\<lambda>item w1. case item of
                 None \<Rightarrow> (Return (), w1)
               | Some i \<Rightarrow>
                   (case context of
                      Some c \<Rightarrow>
                        priv_viewHistory (Some c) False
                          (assign c (\<lambda>obj. obj\<lparr>branch := Some (label i)\<rparr>) w1)
                    | None \<Rightarrow>
                        (case new_context \<lparr>hrepo = Some r, hspecifiedPath = None,
                                           branch = Some (label i), author = None, line = None\<rparr> w1
                         of (a, w2) \<Rightarrow> priv_viewHistory (Some a) False w2))))"

definition viewBranchHistory :: "env \<Rightarrow> addr option \<Rightarrow> world \<Rightarrow> unit outcome \<times> world" where
  "viewBranchHistory gitService context w =
     (let placeHolder = ''Select a ref to see it's history'' in
      case context of
        Some c \<Rightarrow>
          (case deref c w of
             Return cobj \<Rightarrow>
               (case historyViewContext w of
                  None \<Rightarrow> (Throw TypeError, w)
                | Some m \<Rightarrow>
                    (case deref m w of
                       Return mobj \<Rightarrow>
                         viewBranchHistory_pick gitService context (hrepo cobj)
                           (case hspecifiedPath mobj of
                              Some sp \<Rightarrow> placeHolder @ '' of '' @ basename gitService (fsPath sp)
                            | None \<Rightarrow> placeHolder) w
                     | Throw e \<Rightarrow> (Throw e, w)
                     | Pending \<Rightarrow> (Pending, w)))
           | Throw e \<Rightarrow> (Throw e, w)
           | Pending \<Rightarrow> (Pending, w))
      | None \<Rightarrow>
          and_then (await_resolve (selectGitRepo gitService w))
            (\<lambda>rp w1. case rp of
                 None \<Rightarrow> (Return (), w1)
               | Some r \<Rightarrow> viewBranchHistory_pick gitService context (Some r) placeHolder w1))"


definition diffBranch :: "env \<Rightarrow> world \<Rightarrow> unit outcome \<times> world" where
  "diffBranch gitService w =
     thenable_then (selectGitRepo gitService w)
       (\<lambda>rp w1. case rp of
            None \<Rightarrow> (Return (), w1)
          | Some r \<Rightarrow>
              and_then (priv_choseBranchOnPick gitService r
                          (''Select source branch to compare ('' @ root r @ '')'') True True w1)
                (\<lambda>sourceBranch w2. case sourceBranch of
                     None \<Rightarrow> (Return (), showErrorMessage ''Invalid Branch'' w2)
                   | Some src \<Rightarrow>
                       and_then (priv_choseBranchOnPick gitService r
                                   (''Select target branch to compare with '' @ label src
                                      @ '' ('' @ root r @ '')'') True False w2)
                         (\<lambda>targetBranch w3. case targetBranch of
                              None \<Rightarrow> (Return (), showErrorMessage ''Invalid Branch'' w3)
                            | Some tgt \<Rightarrow>
                                and_then (getRefFromQuickPickItem src
                                            ''Input a ref(sha1) as a source branch'' w3)
                                  (\<lambda>l w4.
                                     and_then (getRefFromQuickPickItem tgt
                                                 ''Input a ref(sha1) as a target branch'' w4)
                                       (\<lambda>r' w5.
                                          (Return (), set_filesViewContext
                                             \<lparr>repo = Some r, leftRef = l, rightRef = r',
                                              specifiedPath = None\<rparr> w5))))))"

definition diffFile :: "env \<Rightarrow> vs_uri option \<Rightarrow> world \<Rightarrow> unit outcome \<times> world" where
  "diffFile gitService arg w =
     (case arg of
        None \<Rightarrow> (Return (), w)
      | Some u \<Rightarrow>
          (let rp = getGitRepo gitService u in
           and_then (showQuickPick (selectBranch gitService rp True False)
                       (''Select a ref to see the diff of '' @ basename gitService (uri_path u)) w)
             (\<lambda>item w1. case item of
                  None \<Rightarrow> (Return (), w1)
                | Some i \<Rightarrow>
                    (let currentRef = getCurrentBranch gitService rp in
                     and_then (getRefFromQuickPickItem i
                                 (''Input a ref(sha1) to compare with '' @ to_string currentRef) w1)
                       (\<lambda>l w2.
                          if \<not> truthy l then (Return (), w2)
                          else (Return (), set_filesViewContext
                                  \<lparr>repo = rp, leftRef = l, rightRef = currentRef,
                                   specifiedPath = Some u\<rparr> w2))))))"


definition inputRef :: "env \<Rightarrow> world \<Rightarrow> unit outcome \<times> world" where
  "inputRef gitService w =
     thenable_then (selectGitRepo gitService w)
       (\<lambda>rp w1. case rp of
            None \<Rightarrow> (Return (), w1)
          | Some r \<Rightarrow>
              and_then (showInputBox (PlaceHolder ''Input a ref(sha1) to see it's committed files'') w1)
                (\<lambda>ref w2. case ref of
                     JStr s \<Rightarrow>
                       (Return (), set_filesViewContext
                          \<lparr>repo = Some r, leftRef = JNull, rightRef = JStr (trim s),
                           specifiedPath = None\<rparr> w2)
                   | JNull \<Rightarrow> (Throw TypeError, w2)
                   | JUndefined \<Rightarrow> (Throw TypeError, w2)))"

text \<open>The arguments that \<open>openCommittedFile\<close> hands to the host's diff command.\<close>

definition diff_leftRef :: "files_view_context \<Rightarrow> jsstr" where
  "diff_leftRef c = (if truthy (leftRef c) then leftRef c else JStr (to_string (rightRef c) @ ''~''))"

definition diff_title :: "files_view_context \<Rightarrow> jsstr" where
  "diff_title c =
     (if truthy (leftRef c)
      then JStr (to_string (diff_leftRef c) @ '' .. '' @ to_string (rightRef c))
      else rightRef c)"

definition openCommittedFile :: "env \<Rightarrow> git_committed_file \<Rightarrow> world \<Rightarrow> unit outcome \<times> world" where
  "openCommittedFile gitService file w =
     (case filesViewContext w of
        None \<Rightarrow> (Throw TypeError, w)
      | Some c \<Rightarrow>
          (Return (),
           emit (DiffOpened (toGitUri (file_uri file) (diff_leftRef c))
                            (toGitUri (file_uri file) (rightRef c))
                            (to_string (diff_title c) @ '' | ''
                               @ basename gitService (gitRelativePath file))) w))"





subsection \<open>Observations on a run\<close>

text \<open>The files contexts stored into the model so far, oldest first.\<close>

fun files_of :: "event \<Rightarrow> files_view_context list" where
  "files_of (FilesViewContextSet c) = [c]"
| "files_of e = []"

definition published :: "world \<Rightarrow> files_view_context list" where
  "published w = concat (map files_of (trace w))"

text \<open>The pick lists shown so far, oldest first.\<close>

fun picks_of :: "event \<Rightarrow> pick_item list list" where
  "picks_of (QuickPickShown items placeHolder) = [items]"
| "picks_of e = []"

definition pick_lists :: "world \<Rightarrow> pick_item list list" where
  "pick_lists w = concat (map picks_of (trace w))"

text \<open>
  The answers of the script that a run from \<open>w\<close> to \<open>w'\<close> has used up: \<open>consumed\<close> says
  that what is left is a suffix of what there was, \<open>last_answer\<close> names the answer used
  last.
\<close>

definition consumed :: "world \<Rightarrow> world \<Rightarrow> bool" where
  "consumed w w' = (\<exists>pre. answers w = pre @ answers w')"


text \<open>
  The decoration that \<open>selectBranch\<close> puts in front of the current ref's label. Every
  other decorated label starts with the no-break space.
\<close>

definition marked_current :: "pick_item \<Rightarrow> bool" where
  "marked_current i = (take 9 (label i) = ''$(check)'' @ SpaceChar)"

text \<open>A ref's pick item as \<open>selectBranch\<close> builds it without decoration.\<close>

definition plain_item :: "git_ref \<Rightarrow> pick_item" where
  "plain_item r =
     \<lparr>label = ref_label r, description = ref_description r,
      openShaTextBox = False, pick_repo = None\<rparr>"

subsection \<open>Examples used to exercise the theorems\<close>

definition ex_repo :: git_repo where
  "ex_repo = \<lparr>root = ''/work/proj''\<rparr>"

definition ex_refs :: "git_ref list" where
  "ex_refs = [\<lparr>ref_type = Head, name = Some ''main'', commit = ''aaa''\<rparr>,
              \<lparr>ref_type = Tag, name = Some ''v1'', commit = ''bbb''\<rparr>]"

definition ex_uri :: vs_uri where
  "ex_uri = \<lparr>scheme = ''file'', uri_path = ''/work/proj/a.ts'', fsPath = ''/work/proj/a.ts'',
             query = Query []\<rparr>"

text \<open>
  \<open>path.basename\<close> on a POSIX platform: trailing slashes are dropped, then the part
  after the last slash is taken.
\<close>

definition posix_basename :: "string \<Rightarrow> string" where
  "posix_basename p =
     rev (takeWhile (\<lambda>c. c \<noteq> CHR ''/'') (dropWhile (\<lambda>c. c = CHR ''/'') (rev p)))"

definition ex_env :: "git_repo list \<Rightarrow> git_ref list \<Rightarrow> env" where
  "ex_env repos refs =
     \<lparr>getGitRepos = repos, getGitRepo = (\<lambda>u. Some ex_repo), getRefs = (\<lambda>r. refs),
      getCurrentBranch = (\<lambda>r. JStr ''main''),
      getAuthors = (\<lambda>r. [\<lparr>author_name = ''Ann'', email = ''ann@example.org''\<rparr>]),
      basename = posix_basename, activeTextEditor = None\<rparr>"

definition ex_world :: "answer list \<Rightarrow> world" where
  "ex_world as =
     \<lparr>filesViewContext = None, historyViewContext = None, heap = [], loadAll = False,
      express = False, answers = as, trace = []\<rparr>"


definition ex_dup_refs :: "git_ref list" where
  "ex_dup_refs = [\<lparr>ref_type = Head, name = Some ''main'', commit = ''aaa''\<rparr>,
                  \<lparr>ref_type = Tag, name = Some ''main'', commit = ''bbb''\<rparr>]"

definition ex_files_context :: "jsstr \<Rightarrow> jsstr \<Rightarrow> files_view_context" where
  "ex_files_context l r = \<lparr>repo = Some ex_repo, leftRef = l, rightRef = r, specifiedPath = None\<rparr>"

definition ex_file :: git_committed_file where
  "ex_file = \<lparr>file_uri = ex_uri, gitRelativePath = ''a.ts''\<rparr>"


section \<open>Properties\<close>

subsection \<open>What the primitives change\<close>

lemma emit_fields [simp]:
  "trace (emit e w) = trace w @ [e]"
  "answers (emit e w) = answers w"
  "filesViewContext (emit e w) = filesViewContext w"
  "historyViewContext (emit e w) = historyViewContext w"
  "heap (emit e w) = heap w"
  "loadAll (emit e w) = loadAll w"
  "express (emit e w) = express w"
  by (simp_all add: emit_def)

lemma pick_lists_fields [simp]:
  "pick_lists (emit e w) = pick_lists w @ picks_of e"
  "pick_lists (w\<lparr>answers := as\<rparr>) = pick_lists w"
  "pick_lists (w\<lparr>filesViewContext := fc\<rparr>) = pick_lists w"
  by (simp_all add: pick_lists_def emit_def)

lemma published_fields [simp]:
  "published (emit e w) = published w @ files_of e"
  "published (w\<lparr>answers := as\<rparr>) = published w"
  "published (w\<lparr>filesViewContext := fc\<rparr>) = published w"
  "published (w\<lparr>historyViewContext := hc\<rparr>) = published w"
  "published (w\<lparr>heap := h\<rparr>) = published w"
  "published (w\<lparr>loadAll := b\<rparr>) = published w"
  "published (w\<lparr>express := b\<rparr>) = published w"
  by (simp_all add: published_def emit_def)

lemma showQuickPick_Picked:
  "answers w = Picked i # rest \<Longrightarrow> i < length items \<Longrightarrow>
   showQuickPick items ph w =
     (Return (Some (items ! i)), (emit (QuickPickShown items ph) w)\<lparr>answers := rest\<rparr>)"
  by (simp add: showQuickPick_def)

lemma showQuickPick_Dismissed:
  "answers w = Dismissed # rest \<Longrightarrow>
   showQuickPick items ph w = (Return None, (emit (QuickPickShown items ph) w)\<lparr>answers := rest\<rparr>)"
  by (simp add: showQuickPick_def)

lemma showInputBox_Typed:
  "answers w = Typed s # rest \<Longrightarrow>
   showInputBox opts w = (Return (JStr s), (emit (InputBoxShown opts) w)\<lparr>answers := rest\<rparr>)"
  by (simp add: showInputBox_def)

lemma showInputBox_Dismissed:
  "answers w = Dismissed # rest \<Longrightarrow>
   showInputBox opts w = (Return JUndefined, (emit (InputBoxShown opts) w)\<lparr>answers := rest\<rparr>)"
  by (simp add: showInputBox_def)

lemma showQuickPick_frame:
  assumes "showQuickPick items ph w = (out, w')"
  shows "trace w' = trace w @ [QuickPickShown items ph]"
    and "filesViewContext w' = filesViewContext w"
    and "historyViewContext w' = historyViewContext w"
    and "heap w' = heap w"
    and "published w' = published w"
    and "pick_lists w' = pick_lists w @ [items]"
  using assms
  by (auto simp: showQuickPick_def Let_def split: list.splits answer.splits if_splits)

lemma showInputBox_frame:
  assumes "showInputBox opts w = (out, w')"
  shows "trace w' = trace w @ [InputBoxShown opts]"
    and "filesViewContext w' = filesViewContext w"
    and "historyViewContext w' = historyViewContext w"
    and "heap w' = heap w"
    and "published w' = published w"
    and "pick_lists w' = pick_lists w"
  using assms
  by (auto simp: showInputBox_def Let_def split: list.splits answer.splits if_splits)

lemma selectGitRepo_frame:
  assumes "selectGitRepo g w = (p, w')"
  shows "filesViewContext w' = filesViewContext w"
    and "historyViewContext w' = historyViewContext w"
    and "heap w' = heap w"
    and "published w' = published w"
  using assms
  by (auto simp: selectGitRepo_def showQuickPick_def Let_def
      split: list.splits answer.splits if_splits option.splits prod.splits)

lemma getRefFromQuickPickItem_frame:
  assumes "getRefFromQuickPickItem i t w = (out, w')"
  shows "filesViewContext w' = filesViewContext w"
    and "historyViewContext w' = historyViewContext w"
    and "heap w' = heap w"
    and "published w' = published w"
    and "pick_lists w' = pick_lists w"
  using assms
  by (auto simp: getRefFromQuickPickItem_def dest: showInputBox_frame split: if_splits)

lemma priv_choseBranchOnPick_frame:
  assumes "priv_choseBranchOnPick g r ph a d w = (out, w')"
  shows "filesViewContext w' = filesViewContext w"
    and "historyViewContext w' = historyViewContext w"
    and "heap w' = heap w"
    and "published w' = published w"
    and "pick_lists w' = pick_lists w @ [selectBranch g (Some r) a False]"
proof -
  obtain o1 w1 where q: "showQuickPick (selectBranch g (Some r) a False) ph w = (o1, w1)"
    by (cases "showQuickPick (selectBranch g (Some r) a False) ph w")
  from assms q have "w' = w1"
    by (cases o1) (simp_all add: priv_choseBranchOnPick_def)
  with showQuickPick_frame[OF q]
  show "filesViewContext w' = filesViewContext w"
    and "historyViewContext w' = historyViewContext w"
    and "heap w' = heap w"
    and "published w' = published w"
    and "pick_lists w' = pick_lists w @ [selectBranch g (Some r) a False]"
    by simp_all
qed

text \<open>The ways a continued flow can have come to its result.\<close>

lemma and_then_cases:
  assumes "and_then m k = (out, w')"
  obtains (ret) a w1 where "m = (Return a, w1)" "k a w1 = (out, w')"
        | (thr) e where "m = (Throw e, w')" "out = Throw e"
        | (pen) "m = (Pending, w')" "out = Pending"
  using assms by (cases m; cases "fst m") auto

lemma thenable_then_cases:
  assumes "thenable_then m k = (out, w')"
  obtains (null) "m = (Null, w')" "out = Throw TypeError"
        | (ret) a w1 where "m = (Promise (Return a), w1)" "k a w1 = (out, w')"
        | (thr) e where "m = (Promise (Throw e), w')" "out = Throw e"
        | (pen) "m = (Promise Pending, w')" "out = Pending"
proof (cases m)
  case (Pair p w1)
  show ?thesis
  proof (cases p)
    case Null
    with Pair assms null show ?thesis by simp
  next
    case (Promise po)
    with Pair assms ret thr pen show ?thesis by (cases po) auto
  qed
qed

subsection \<open>The pick list of refs\<close>

lemma selectBranch_plain:
  "selectBranch g rp allowEnterSha False =
     (if allowEnterSha then [EnterShaPickItem] else []) @ map plain_item (getRefs g rp)"
  by (simp add: selectBranch_def branch_item_def plain_item_def Let_def)

lemma four_spaces: "concat (replicate 4 SpaceChar) = [CHR 0xA0, CHR 0xA0, CHR 0xA0, CHR 0xA0]"
  by (simp add: SpaceChar_def numeral_eq_Suc)

lemma decorated_ne_plain: "branch_item cur True x \<noteq> plain_item x"
proof -
  have "length (label (branch_item cur True x)) > length (label (plain_item x))"
    by (simp add: branch_item_def plain_item_def SpaceChar_def Let_def)
  then show ?thesis by auto
qed

lemma marked_branch_item:
  "marked_current (branch_item cur True r) \<longleftrightarrow> JStr (ref_label r) = cur"
  by (simp add: marked_current_def branch_item_def four_spaces Let_def) (simp add: SpaceChar_def)

lemma unmarked_EnterSha: "\<not> marked_current EnterShaPickItem"
  by (simp add: marked_current_def EnterShaPickItem_def SpaceChar_def)

lemma filter_marked:
  "filter marked_current (selectBranch g rp a True) =
     map (branch_item (getCurrentBranch g rp) True)
       (filter (\<lambda>r. JStr (ref_label r) = getCurrentBranch g rp) (getRefs g rp))"
  by (simp add: selectBranch_def Let_def unmarked_EnterSha filter_map o_def marked_branch_item)

lemma distinct_filter_count:
  "distinct (map f xs) \<Longrightarrow> length (filter (\<lambda>x. f x = v) xs) = (if v \<in> f ` set xs then 1 else 0)"
  by (induction xs) auto

subsection \<open>The diff-branch flow\<close>

text \<open>
  C1. In the diff-branch flow, when the repository is settled and the user picks the item
  of an existing ref with label \<open>a\<close> as the source and then the item of an existing ref
  with label \<open>b\<close> as the target (the items follow the manual-entry item, hence the
  \<open>Suc\<close>), the flow completes and stores the files context with \<open>leftRef = a\<close> and
  \<open>rightRef = b\<close>: the plain labels, whatever the current branch is. The scenario of
  the claim is \<open>a = ''main''\<close>, \<open>b = ''v1''\<close>.
\<close>

theorem diffBranch_source_then_target:
  assumes "selectGitRepo g w = (Promise (Return (Some r)), w1)"
    and "answers w1 = Picked (Suc i) # Picked (Suc j) # rest"
    and "i < length (getRefs g (Some r))" and "j < length (getRefs g (Some r))"
    and "ref_label (getRefs g (Some r) ! i) = a" and "ref_label (getRefs g (Some r) ! j) = b"
  shows "fst (diffBranch g w) = Return ()
       \<and> filesViewContext (snd (diffBranch g w)) =
           Some \<lparr>repo = Some r, leftRef = JStr a, rightRef = JStr b, specifiedPath = None\<rparr>
       \<and> published (snd (diffBranch g w)) =
           published w @ [\<lparr>repo = Some r, leftRef = JStr a, rightRef = JStr b, specifiedPath = None\<rparr>]"
  using assms selectGitRepo_frame(4)[OF assms(1)]
  by (simp add: diffBranch_def priv_choseBranchOnPick_def selectBranch_plain showQuickPick_Picked
      getRefFromQuickPickItem_def plain_item_def set_filesViewContext_def)

theorem diffBranch_source_then_target_witness:
  "selectGitRepo (ex_env [ex_repo] ex_refs) (ex_world [Picked (Suc 0), Picked (Suc (Suc 0))])
     = (Promise (Return (Some ex_repo)), ex_world [Picked (Suc 0), Picked (Suc (Suc 0))])
   \<and> ref_label (getRefs (ex_env [ex_repo] ex_refs) (Some ex_repo) ! 0) = ''main''
   \<and> ref_label (getRefs (ex_env [ex_repo] ex_refs) (Some ex_repo) ! Suc 0) = ''v1''
   \<and> fst (diffBranch (ex_env [ex_repo] ex_refs) (ex_world [Picked (Suc 0), Picked (Suc (Suc 0))])) = Return ()
   \<and> filesViewContext (snd (diffBranch (ex_env [ex_repo] ex_refs)
                               (ex_world [Picked (Suc 0), Picked (Suc (Suc 0))]))) =
       Some \<lparr>repo = Some ex_repo, leftRef = JStr ''main'', rightRef = JStr ''v1'', specifiedPath = None\<rparr>"
proof -
  let ?g = "ex_env [ex_repo] ex_refs" and ?w = "ex_world [Picked (Suc 0), Picked (Suc (Suc 0))]"
  have h1: "selectGitRepo ?g ?w = (Promise (Return (Some ex_repo)), ?w)"
    by (simp add: selectGitRepo_def ex_env_def)
  have h2: "answers ?w = Picked (Suc 0) # Picked (Suc (Suc 0)) # []"
    by (simp add: ex_world_def)
  have h3: "0 < length (getRefs ?g (Some ex_repo))" "Suc 0 < length (getRefs ?g (Some ex_repo))"
    by (simp_all add: ex_env_def ex_refs_def)
  have h4: "ref_label (getRefs ?g (Some ex_repo) ! 0) = ''main''"
    "ref_label (getRefs ?g (Some ex_repo) ! Suc 0) = ''v1''"
    by (simp_all add: ex_env_def ex_refs_def ref_label_def)
  from diffBranch_source_then_target[OF h1 h2 h3 h4] h1 h4 show ?thesis by simp
qed

text \<open>
  C4. In the diff-branch flow, when the repository is settled, the user picks any item in
  the source round and then dismisses the pick list of the target round, the flow ends
  after the message "Invalid Branch": no files context is stored, and the model's files
  context is the one from before the flow.
\<close>

theorem diffBranch_cancel_at_target:
  assumes "selectGitRepo g w = (Promise (Return (Some r)), w1)"
    and "answers w1 = Picked i # Dismissed # rest"
    and "i < length (selectBranch g (Some r) True False)"
  shows "fst (diffBranch g w) = Return ()
       \<and> filesViewContext (snd (diffBranch g w)) = filesViewContext w
       \<and> published (snd (diffBranch g w)) = published w
       \<and> last (trace (snd (diffBranch g w))) = ErrorMessageShown ''Invalid Branch''"
  using assms selectGitRepo_frame(1,4)[OF assms(1)]
  by (simp add: diffBranch_def priv_choseBranchOnPick_def showQuickPick_Picked
      showQuickPick_Dismissed showErrorMessage_def)

theorem diffBranch_cancel_at_target_witness:
  "selectGitRepo (ex_env [ex_repo] ex_refs) (ex_world [Picked (Suc 0), Dismissed])
     = (Promise (Return (Some ex_repo)), ex_world [Picked (Suc 0), Dismissed])
   \<and> Suc 0 < length (selectBranch (ex_env [ex_repo] ex_refs) (Some ex_repo) True False)
   \<and> fst (diffBranch (ex_env [ex_repo] ex_refs) (ex_world [Picked (Suc 0), Dismissed])) = Return ()
   \<and> filesViewContext (snd (diffBranch (ex_env [ex_repo] ex_refs) (ex_world [Picked (Suc 0), Dismissed])))
       = None
   \<and> published (snd (diffBranch (ex_env [ex_repo] ex_refs) (ex_world [Picked (Suc 0), Dismissed]))) = []"
proof -
  let ?g = "ex_env [ex_repo] ex_refs" and ?w = "ex_world [Picked (Suc 0), Dismissed]"
  have h1: "selectGitRepo ?g ?w = (Promise (Return (Some ex_repo)), ?w)"
    by (simp add: selectGitRepo_def ex_env_def)
  have h2: "answers ?w = Picked (Suc 0) # Dismissed # []"
    by (simp add: ex_world_def)
  have h3: "Suc 0 < length (selectBranch ?g (Some ex_repo) True False)"
    by (simp add: selectBranch_plain ex_env_def ex_refs_def)
  have h4: "filesViewContext ?w = None" "published ?w = []"
    by (simp_all add: ex_world_def published_def)
  from diffBranch_cancel_at_target[OF h1 h2 h3] h1 h3 h4 show ?thesis by simp
qed

text \<open>
  C10. In every run of the diff-branch flow, the pick lists shown after the repository is
  settled are one or two copies of the undecorated list: the manual-entry item followed
  by the plain item of every ref. When no repository is settled, no list of refs is
  shown. The helper \<open>_choseBranchOnPick\<close> ignores its fourth argument, although the
  source round passes \<open>true\<close>, and the list that \<open>selectBranch\<close> builds when asked to mark
  the current ref differs from the list shown as soon as there is a ref.
\<close>

theorem diffBranch_lists_undecorated:
  assumes "selectGitRepo g w = (p, w1)" and "diffBranch g w = (out, w')"
  shows "(\<forall>r. p = Promise (Return (Some r)) \<longrightarrow>
            pick_lists w' = pick_lists w1 @ [EnterShaPickItem # map plain_item (getRefs g (Some r))]
          \<or> pick_lists w' = pick_lists w1 @ [EnterShaPickItem # map plain_item (getRefs g (Some r)),
                                             EnterShaPickItem # map plain_item (getRefs g (Some r))])
       \<and> ((\<forall>r. p \<noteq> Promise (Return (Some r))) \<longrightarrow> pick_lists w' = pick_lists w1)
       \<and> (\<forall>r ph a v. priv_choseBranchOnPick g r ph a True v = priv_choseBranchOnPick g r ph a False v)
       \<and> (\<forall>r. getRefs g (Some r) \<noteq> [] \<longrightarrow>
             selectBranch g (Some r) True True \<noteq> EnterShaPickItem # map plain_item (getRefs g (Some r)))"
proof (intro conjI allI impI)
  fix r assume "p = Promise (Return (Some r))"
  with assms
  show "pick_lists w' = pick_lists w1 @ [EnterShaPickItem # map plain_item (getRefs g (Some r))]
      \<or> pick_lists w' = pick_lists w1 @ [EnterShaPickItem # map plain_item (getRefs g (Some r)),
                                         EnterShaPickItem # map plain_item (getRefs g (Some r))]"
    by (auto simp: diffBranch_def showErrorMessage_def set_filesViewContext_def selectBranch_plain
        elim!: and_then_cases
        dest!: priv_choseBranchOnPick_frame(5) getRefFromQuickPickItem_frame(5)
        split: option.splits)
next
  assume "\<forall>r. p \<noteq> Promise (Return (Some r))"
  with assms show "pick_lists w' = pick_lists w1"
    by (auto simp: diffBranch_def elim!: thenable_then_cases split: option.splits)
next
  fix r ph a v
  show "priv_choseBranchOnPick g r ph a True v = priv_choseBranchOnPick g r ph a False v"
    by (simp add: priv_choseBranchOnPick_def)
next
  fix r assume "getRefs g (Some r) \<noteq> []"
  then obtain x xs where "getRefs g (Some r) = x # xs"
    by (cases "getRefs g (Some r)") auto
  then show "selectBranch g (Some r) True True \<noteq> EnterShaPickItem # map plain_item (getRefs g (Some r))"
    using decorated_ne_plain by (simp add: selectBranch_def Let_def)
qed

theorem diffBranch_lists_undecorated_witness:
  "selectGitRepo (ex_env [ex_repo] ex_refs) (ex_world [Picked (Suc 0), Picked (Suc (Suc 0))])
     = (Promise (Return (Some ex_repo)), ex_world [Picked (Suc 0), Picked (Suc (Suc 0))])
   \<and> getRefs (ex_env [ex_repo] ex_refs) (Some ex_repo) \<noteq> []
   \<and> pick_lists (snd (diffBranch (ex_env [ex_repo] ex_refs)
                         (ex_world [Picked (Suc 0), Picked (Suc (Suc 0))]))) =
       [EnterShaPickItem # map plain_item ex_refs, EnterShaPickItem # map plain_item ex_refs]
   \<and> selectBranch (ex_env [ex_repo] ex_refs) (Some ex_repo) True True
       \<noteq> EnterShaPickItem # map plain_item (getRefs (ex_env [ex_repo] ex_refs) (Some ex_repo))"
proof -
  let ?g = "ex_env [ex_repo] ex_refs" and ?w = "ex_world [Picked (Suc 0), Picked (Suc (Suc 0))]"
  have h1: "selectGitRepo ?g ?w = (Promise (Return (Some ex_repo)), ?w)"
    by (simp add: selectGitRepo_def ex_env_def)
  have h2: "diffBranch ?g ?w = (fst (diffBranch ?g ?w), snd (diffBranch ?g ?w))"
    by simp
  have h3: "getRefs ?g (Some ex_repo) \<noteq> []"
    by (simp add: ex_env_def ex_refs_def)
  have h4: "length (pick_lists (snd (diffBranch ?g ?w))) = 2"
    by (simp add: diffBranch_def selectGitRepo_def priv_choseBranchOnPick_def showQuickPick_def
        getRefFromQuickPickItem_def set_filesViewContext_def selectBranch_plain plain_item_def
        ex_env_def ex_refs_def ex_world_def emit_def pick_lists_def EnterShaPickItem_def)
  have h5: "pick_lists ?w = []" "getRefs ?g (Some ex_repo) = ex_refs"
    by (simp_all add: ex_world_def pick_lists_def ex_env_def)
  note t = diffBranch_lists_undecorated[OF h1 h2]
  from t h3
  have c4: "selectBranch ?g (Some ex_repo) True True
              \<noteq> EnterShaPickItem # map plain_item (getRefs ?g (Some ex_repo))"
    by blast
  from t
  have "pick_lists (snd (diffBranch ?g ?w)) =
          pick_lists ?w @ [EnterShaPickItem # map plain_item (getRefs ?g (Some ex_repo))]
      \<or> pick_lists (snd (diffBranch ?g ?w)) =
          pick_lists ?w @ [EnterShaPickItem # map plain_item (getRefs ?g (Some ex_repo)),
                           EnterShaPickItem # map plain_item (getRefs ?g (Some ex_repo))]"
    by blast
  with h4 h5
  have c3: "pick_lists (snd (diffBranch ?g ?w)) =
              [EnterShaPickItem # map plain_item ex_refs, EnterShaPickItem # map plain_item ex_refs]"
    by auto
  from h1 h3 c3 c4 show ?thesis by blast
qed

subsection \<open>Selecting the repository\<close>

text \<open>
  C8. With no repository, \<open>selectGitRepo\<close> returns \<open>null\<close> and leaves the state as it is, so
  no prompt is shown; every command that starts with it then ends without any effect
  (\<open>viewBranchHistory\<close> returns, the three commands that call \<open>.then\<close> on the result raise).
  With exactly one repository it resolves to that repository, again without any prompt.
\<close>

theorem selectGitRepo_none_or_single:
  "(length (getGitRepos g) = 0 \<longrightarrow>
      selectGitRepo g w = (Null, w)
      \<and> viewBranchHistory g None w = (Return (), w)
      \<and> viewHistory g w = (Throw TypeError, w)
      \<and> diffBranch g w = (Throw TypeError, w)
      \<and> inputRef g w = (Throw TypeError, w))
   \<and> (length (getGitRepos g) = 1 \<longrightarrow>
      selectGitRepo g w = (Promise (Return (Some (getGitRepos g ! 0))), w))"
  by (auto simp: selectGitRepo_def viewBranchHistory_def viewHistory_def diffBranch_def inputRef_def
      Let_def)

theorem selectGitRepo_none_or_single_witness:
  "length (getGitRepos (ex_env [] ex_refs)) = 0
   \<and> selectGitRepo (ex_env [] ex_refs) (ex_world [Picked 0]) = (Null, ex_world [Picked 0])
   \<and> trace (snd (selectGitRepo (ex_env [] ex_refs) (ex_world [Picked 0]))) = []
   \<and> length (getGitRepos (ex_env [ex_repo] ex_refs)) = 1
   \<and> selectGitRepo (ex_env [ex_repo] ex_refs) (ex_world [Picked 0])
       = (Promise (Return (Some ex_repo)), ex_world [Picked 0])
   \<and> trace (snd (selectGitRepo (ex_env [ex_repo] ex_refs) (ex_world [Picked 0]))) = []"
proof -
  have h0: "length (getGitRepos (ex_env [] ex_refs)) = 0"
    and h1: "length (getGitRepos (ex_env [ex_repo] ex_refs)) = 1"
    and h2: "getGitRepos (ex_env [ex_repo] ex_refs) ! 0 = ex_repo"
    and h3: "trace (ex_world [Picked 0]) = []"
    by (simp_all add: ex_env_def ex_world_def)
  from selectGitRepo_none_or_single[of "ex_env [] ex_refs" "ex_world [Picked 0]"] h0
  have a: "selectGitRepo (ex_env [] ex_refs) (ex_world [Picked 0]) = (Null, ex_world [Picked 0])"
    by blast
  from selectGitRepo_none_or_single[of "ex_env [ex_repo] ex_refs" "ex_world [Picked 0]"] h1 h2
  have b: "selectGitRepo (ex_env [ex_repo] ex_refs) (ex_world [Picked 0])
             = (Promise (Return (Some ex_repo)), ex_world [Picked 0])"
    by simp
  from h0 h1 h3 a b show ?thesis by simp
qed

subsection \<open>Opening a committed file\<close>

text \<open>
  C9. \<open>openCommittedFile\<close> opens a diff whose right side is the context's \<open>rightRef\<close>. When
  the context's \<open>leftRef\<close> is absent (\<open>null\<close>, \<open>undefined\<close>, or the empty string, which the
  test \<open>if (leftRef)\<close> does not tell apart) the left side is \<open>rightRef + "~"\<close> and the title
  starts with \<open>rightRef\<close> alone; when \<open>leftRef\<close> is a non-empty string it is the left side
  as it is and the title starts with \<open>leftRef .. rightRef\<close>. The ref of a side is carried
  in the query of its uri.
\<close>

theorem openCommittedFile_sides:
  assumes "filesViewContext w = Some c"
  shows "(leftRef c = JNull \<or> leftRef c = JUndefined \<or> leftRef c = JStr [] \<longrightarrow>
           openCommittedFile g f w =
             (Return (),
              emit (DiffOpened (toGitUri (file_uri f) (JStr (to_string (rightRef c) @ ''~'')))
                               (toGitUri (file_uri f) (rightRef c))
                               (to_string (rightRef c) @ '' | '' @ basename g (gitRelativePath f))) w))
       \<and> (\<forall>s. leftRef c = JStr s \<and> s \<noteq> [] \<longrightarrow>
           openCommittedFile g f w =
             (Return (),
              emit (DiffOpened (toGitUri (file_uri f) (JStr s))
                               (toGitUri (file_uri f) (rightRef c))
                               (s @ '' .. '' @ to_string (rightRef c) @ '' | ''
                                  @ basename g (gitRelativePath f))) w))
       \<and> (\<forall>u x. query (toGitUri u x) = GitQuery (fsPath u) x)"
  using assms
  by (cases "leftRef c") (auto simp: openCommittedFile_def diff_leftRef_def diff_title_def toGitUri_def)

theorem openCommittedFile_sides_witness:
  "filesViewContext ((ex_world [])\<lparr>filesViewContext := Some (ex_files_context JNull (JStr ''abc123''))\<rparr>)
     = Some (ex_files_context JNull (JStr ''abc123''))
   \<and> leftRef (ex_files_context JNull (JStr ''abc123'')) = JNull
   \<and> trace (snd (openCommittedFile (ex_env [ex_repo] ex_refs) ex_file
        ((ex_world [])\<lparr>filesViewContext := Some (ex_files_context JNull (JStr ''abc123''))\<rparr>)))
       = [DiffOpened (toGitUri ex_uri (JStr ''abc123~'')) (toGitUri ex_uri (JStr ''abc123''))
            ''abc123 | a.ts'']
   \<and> filesViewContext ((ex_world [])\<lparr>filesViewContext := Some (ex_files_context (JStr ''main'') (JStr ''v1''))\<rparr>)
     = Some (ex_files_context (JStr ''main'') (JStr ''v1''))
   \<and> leftRef (ex_files_context (JStr ''main'') (JStr ''v1'')) = JStr ''main''
   \<and> trace (snd (openCommittedFile (ex_env [ex_repo] ex_refs) ex_file
        ((ex_world [])\<lparr>filesViewContext := Some (ex_files_context (JStr ''main'') (JStr ''v1''))\<rparr>)))
       = [DiffOpened (toGitUri ex_uri (JStr ''main'')) (toGitUri ex_uri (JStr ''v1''))
            ''main .. v1 | a.ts'']"
proof -
  let ?g = "ex_env [ex_repo] ex_refs"
  let ?c1 = "ex_files_context JNull (JStr ''abc123'')"
  let ?c2 = "ex_files_context (JStr ''main'') (JStr ''v1'')"
  let ?w1 = "(ex_world [])\<lparr>filesViewContext := Some ?c1\<rparr>"
  let ?w2 = "(ex_world [])\<lparr>filesViewContext := Some ?c2\<rparr>"
  have h1: "filesViewContext ?w1 = Some ?c1" and h2: "filesViewContext ?w2 = Some ?c2"
    by simp_all
  have l1: "leftRef ?c1 = JNull" and l2: "leftRef ?c2 = JStr ''main''"
    by (simp_all add: ex_files_context_def)
  have r: "rightRef ?c1 = JStr ''abc123''" "rightRef ?c2 = JStr ''v1''"
    "file_uri ex_file = ex_uri" "basename ?g (gitRelativePath ex_file) = ''a.ts''"
    "trace (ex_world []) = []"
    by (simp_all add: ex_files_context_def ex_file_def ex_env_def ex_world_def posix_basename_def)
  from openCommittedFile_sides[OF h1, of ?g ex_file] l1
  have a: "openCommittedFile ?g ex_file ?w1 =
             (Return (),
              emit (DiffOpened (toGitUri (file_uri ex_file) (JStr (to_string (rightRef ?c1) @ ''~'')))
                               (toGitUri (file_uri ex_file) (rightRef ?c1))
                               (to_string (rightRef ?c1) @ '' | '' @ basename ?g (gitRelativePath ex_file))) ?w1)"
    by blast
  from openCommittedFile_sides[OF h2, of ?g ex_file] l2
  have b: "openCommittedFile ?g ex_file ?w2 =
             (Return (),
              emit (DiffOpened (toGitUri (file_uri ex_file) (JStr ''main''))
                               (toGitUri (file_uri ex_file) (rightRef ?c2))
                               (''main'' @ '' .. '' @ to_string (rightRef ?c2) @ '' | ''
                                  @ basename ?g (gitRelativePath ex_file))) ?w2)"
    by blast
  from a r have a': "trace (snd (openCommittedFile ?g ex_file ?w1))
       = [DiffOpened (toGitUri ex_uri (JStr ''abc123~'')) (toGitUri ex_uri (JStr ''abc123''))
            ''abc123 | a.ts'']"
    by simp
  from b r have b': "trace (snd (openCommittedFile ?g ex_file ?w2))
       = [DiffOpened (toGitUri ex_uri (JStr ''main'')) (toGitUri ex_uri (JStr ''v1''))
            ''main .. v1 | a.ts'']"
    by simp
  from h1 h2 l1 l2 a' b' show ?thesis by blast
qed

subsection \<open>Marking the current ref\<close>

lemma selectBranch_decorated:
  "selectBranch g rp a True =
     (if a then [EnterShaPickItem] else [])
       @ map (branch_item (getCurrentBranch g rp) True) (getRefs g rp)"
  by (simp add: selectBranch_def Let_def)

text \<open>
  C7, as amended. In a list built with \<open>selectCurRef\<close> set there is one item per ref, in
  the order of the refs, after the manual-entry item when that is asked for, and the
  manual-entry item is never marked. The item of a ref is marked as current exactly when
  that ref's label (the name, or the commit when the name is absent or empty) equals the
  current branch name; its label is the marker, or four no-break spaces, then a space and
  the ref's label. So there are as many marked items as refs with that label, none
  when no label matches or no branch is current; when the labels of the refs are pairwise
  distinct, exactly one item is marked if some label equals the current branch name, and
  none otherwise.
\<close>

theorem selectBranch_marks_matching_items:
  "length (selectBranch g rp a True) = (if a then 1 else 0) + length (getRefs g rp)
   \<and> (a \<longrightarrow> selectBranch g rp a True ! 0 = EnterShaPickItem
            \<and> \<not> marked_current (selectBranch g rp a True ! 0))
   \<and> (\<forall>i<length (getRefs g rp).
         (marked_current (selectBranch g rp a True ! ((if a then 1 else 0) + i))
            \<longleftrightarrow> JStr (ref_label (getRefs g rp ! i)) = getCurrentBranch g rp)
         \<and> label (selectBranch g rp a True ! ((if a then 1 else 0) + i)) =
             (if JStr (ref_label (getRefs g rp ! i)) = getCurrentBranch g rp
              then ''$(check)'' @ SpaceChar else concat (replicate 4 SpaceChar))
             @ '' '' @ ref_label (getRefs g rp ! i)
         \<and> description (selectBranch g rp a True ! ((if a then 1 else 0) + i)) =
             ref_description (getRefs g rp ! i))
   \<and> length (filter marked_current (selectBranch g rp a True)) =
       length (filter (\<lambda>r. JStr (ref_label r) = getCurrentBranch g rp) (getRefs g rp))
   \<and> (distinct (map ref_label (getRefs g rp)) \<longrightarrow>
        length (filter marked_current (selectBranch g rp a True)) =
          (if \<exists>r\<in>set (getRefs g rp). JStr (ref_label r) = getCurrentBranch g rp then 1 else 0))"
proof -
  note items = selectBranch_decorated
  have len: "length (selectBranch g rp a True) = (if a then 1 else 0) + length (getRefs g rp)"
    by (simp add: items)
  have first: "a \<longrightarrow> selectBranch g rp a True ! 0 = EnterShaPickItem
            \<and> \<not> marked_current (selectBranch g rp a True ! 0)"
    by (auto simp: items unmarked_EnterSha)
  have nth: "selectBranch g rp a True ! ((if a then 1 else 0) + i)
               = branch_item (getCurrentBranch g rp) True (getRefs g rp ! i)"
    if "i < length (getRefs g rp)" for i
    using that by (simp add: items nth_append)
  have each: "\<forall>i<length (getRefs g rp).
         (marked_current (selectBranch g rp a True ! ((if a then 1 else 0) + i))
            \<longleftrightarrow> JStr (ref_label (getRefs g rp ! i)) = getCurrentBranch g rp)
         \<and> label (selectBranch g rp a True ! ((if a then 1 else 0) + i)) =
             (if JStr (ref_label (getRefs g rp ! i)) = getCurrentBranch g rp
              then ''$(check)'' @ SpaceChar else concat (replicate 4 SpaceChar))
             @ '' '' @ ref_label (getRefs g rp ! i)
         \<and> description (selectBranch g rp a True ! ((if a then 1 else 0) + i)) =
             ref_description (getRefs g rp ! i)"
  proof (intro allI impI)
    fix i assume i: "i < length (getRefs g rp)"
    have l: "label (branch_item (getCurrentBranch g rp) True (getRefs g rp ! i)) =
             (if JStr (ref_label (getRefs g rp ! i)) = getCurrentBranch g rp
              then ''$(check)'' @ SpaceChar else concat (replicate 4 SpaceChar))
             @ '' '' @ ref_label (getRefs g rp ! i)"
      and d: "description (branch_item (getCurrentBranch g rp) True (getRefs g rp ! i)) =
             ref_description (getRefs g rp ! i)"
      by (simp_all add: branch_item_def Let_def)
    from l d show "(marked_current (selectBranch g rp a True ! ((if a then 1 else 0) + i))
            \<longleftrightarrow> JStr (ref_label (getRefs g rp ! i)) = getCurrentBranch g rp)
         \<and> label (selectBranch g rp a True ! ((if a then 1 else 0) + i)) =
             (if JStr (ref_label (getRefs g rp ! i)) = getCurrentBranch g rp
              then ''$(check)'' @ SpaceChar else concat (replicate 4 SpaceChar))
             @ '' '' @ ref_label (getRefs g rp ! i)
         \<and> description (selectBranch g rp a True ! ((if a then 1 else 0) + i)) =
             ref_description (getRefs g rp ! i)"
      unfolding nth[OF i] by (simp only: marked_branch_item simp_thms)
  qed
  have count: "length (filter marked_current (selectBranch g rp a True)) =
     length (filter (\<lambda>r. JStr (ref_label r) = getCurrentBranch g rp) (getRefs g rp))"
    by (simp add: filter_marked)
  have dist: "distinct (map ref_label (getRefs g rp)) \<longrightarrow>
        length (filter marked_current (selectBranch g rp a True)) =
          (if \<exists>r\<in>set (getRefs g rp). JStr (ref_label r) = getCurrentBranch g rp then 1 else 0)"
  proof
    assume d: "distinct (map ref_label (getRefs g rp))"
    show "length (filter marked_current (selectBranch g rp a True)) =
          (if \<exists>r\<in>set (getRefs g rp). JStr (ref_label r) = getCurrentBranch g rp then 1 else 0)"
    proof (cases "getCurrentBranch g rp")
      case (JStr s)
      with distinct_filter_count[OF d, of s] show ?thesis
        by (auto simp: filter_marked)
    qed (simp_all add: filter_marked)
  qed
  from len first each count dist show ?thesis by (intro conjI)
qed

theorem selectBranch_marks_matching_items_witness:
  "0 < length (getRefs (ex_env [ex_repo] ex_refs) (Some ex_repo))
   \<and> Suc 0 < length (getRefs (ex_env [ex_repo] ex_refs) (Some ex_repo))
   \<and> distinct (map ref_label (getRefs (ex_env [ex_repo] ex_refs) (Some ex_repo)))
   \<and> length (selectBranch (ex_env [ex_repo] ex_refs) (Some ex_repo) True True) = 3
   \<and> \<not> marked_current (selectBranch (ex_env [ex_repo] ex_refs) (Some ex_repo) True True ! 0)
   \<and> marked_current (selectBranch (ex_env [ex_repo] ex_refs) (Some ex_repo) True True ! 1)
   \<and> \<not> marked_current (selectBranch (ex_env [ex_repo] ex_refs) (Some ex_repo) True True ! 2)
   \<and> description (selectBranch (ex_env [ex_repo] ex_refs) (Some ex_repo) True True ! 1) = ''aaa''
   \<and> description (selectBranch (ex_env [ex_repo] ex_refs) (Some ex_repo) True True ! 2) = ''Tag at bbb''
   \<and> length (filter marked_current (selectBranch (ex_env [ex_repo] ex_refs) (Some ex_repo) True True)) = 1"
proof -
  let ?g = "ex_env [ex_repo] ex_refs"
  let ?items = "selectBranch ?g (Some ex_repo) True True"
  have r: "getRefs ?g (Some ex_repo) = ex_refs" "getCurrentBranch ?g (Some ex_repo) = JStr ''main''"
    by (simp_all add: ex_env_def)
  have i0: "0 < length (getRefs ?g (Some ex_repo))" and i1: "Suc 0 < length (getRefs ?g (Some ex_repo))"
    unfolding r by (simp_all add: ex_refs_def)
  have d: "distinct (map ref_label (getRefs ?g (Some ex_repo)))"
    unfolding r by (simp add: ex_refs_def ref_label_def)
  have v: "ref_label (ex_refs ! 0) = ''main''" "ref_label (ex_refs ! Suc 0) = ''v1''"
    "ref_description (ex_refs ! 0) = ''aaa''" "ref_description (ex_refs ! Suc 0) = ''Tag at bbb''"
    "\<exists>x\<in>set ex_refs. JStr (ref_label x) = JStr ''main''"
    by (simp_all add: ex_refs_def ref_label_def ref_description_def)
  note t = selectBranch_marks_matching_items[of ?g "Some ex_repo" True]
  note t1 = t[THEN conjunct1]
  note t2 = t[THEN conjunct2, THEN conjunct1]
  note t3 = t[THEN conjunct2, THEN conjunct2, THEN conjunct1]
  note t5 = t[THEN conjunct2, THEN conjunct2, THEN conjunct2, THEN conjunct2]
  have "length ex_refs = 2"
    by (simp add: ex_refs_def)
  with t1 have len: "length ?items = 3"
    by (simp add: r)
  from t2 have m0: "\<not> marked_current (?items ! 0)"
    by blast
  from t3 i0 have "(marked_current (?items ! ((if True then 1 else 0) + 0))
            \<longleftrightarrow> JStr (ref_label (getRefs ?g (Some ex_repo) ! 0)) = getCurrentBranch ?g (Some ex_repo))
         \<and> description (?items ! ((if True then 1 else 0) + 0)) =
             ref_description (getRefs ?g (Some ex_repo) ! 0)"
    by blast
  then have m1: "marked_current (?items ! 1)" "description (?items ! 1) = ''aaa''"
    by (simp_all add: r v)
  from t3 i1 have "(marked_current (?items ! ((if True then 1 else 0) + Suc 0))
            \<longleftrightarrow> JStr (ref_label (getRefs ?g (Some ex_repo) ! Suc 0)) = getCurrentBranch ?g (Some ex_repo))
         \<and> description (?items ! ((if True then 1 else 0) + Suc 0)) =
             ref_description (getRefs ?g (Some ex_repo) ! Suc 0)"
    by blast
  then have m2: "\<not> marked_current (?items ! 2)" "description (?items ! 2) = ''Tag at bbb''"
    by (simp_all add: r v numeral_2_eq_2)
  have e: "\<exists>x\<in>set (getRefs ?g (Some ex_repo)).
             JStr (ref_label x) = getCurrentBranch ?g (Some ex_repo)"
    unfolding r by (rule v(5))
  from t5 d e have c: "length (filter marked_current ?items) = 1"
    by simp
  from i0 i1 d len m0 m1 m2 c show ?thesis by blast
qed

text \<open>
  Against C7 as stated: a branch and a tag can bear the same name; with the head
  \<open>main\<close> and the tag \<open>main\<close>, and \<open>main\<close> current, both items are marked, not only the
  first.
\<close>

theorem selectBranch_marks_both_counterexample:
  "name (ex_dup_refs ! 0) = Some ''main''
   \<and> getCurrentBranch (ex_env [ex_repo] ex_dup_refs) (Some ex_repo) = JStr ''main''
   \<and> map marked_current (selectBranch (ex_env [ex_repo] ex_dup_refs) (Some ex_repo) False True)
       = [True, True]
   \<and> length (filter marked_current (selectBranch (ex_env [ex_repo] ex_dup_refs) (Some ex_repo) False True))
       = 2"
  by (simp add: ex_dup_refs_def ex_env_def selectBranch_def marked_branch_item ref_label_def)

subsection \<open>Manual entry of a ref\<close>

text \<open>
  C2. The claim fails on the code. The text typed after the manual-entry item is taken as
  it is: in the diff-file flow and in the diff-branch flow, submitting \<open>"  abc123  "\<close>
  stores the ref with its spaces, although the trimmed text is \<open>"abc123"\<close>. In the
  diff-branch flow submitting the empty string does not abort: the flow completes and
  stores a files context whose \<open>leftRef\<close> is the empty string. The sibling paths do what
  the claim says: the input-ref flow trims the text of its input box, and the diff-file
  flow stores nothing after an empty submission.
\<close>

theorem manual_entry_untrimmed_unguarded:
  "map_option leftRef (filesViewContext (snd (diffFile (ex_env [ex_repo] ex_refs) (Some ex_uri)
                                               (ex_world [Picked 0, Typed ''  abc123  '']))))
     = Some (JStr ''  abc123  '')
   \<and> filesViewContext (snd (diffBranch (ex_env [ex_repo] ex_refs)
                               (ex_world [Picked 0, Picked 2, Typed ''  abc123  ''])))
       = Some \<lparr>repo = Some ex_repo, leftRef = JStr ''  abc123  '', rightRef = JStr ''v1'',
               specifiedPath = None\<rparr>
   \<and> trim ''  abc123  '' = ''abc123''
   \<and> JStr ''  abc123  '' \<noteq> JStr (trim ''  abc123  '')
   \<and> fst (diffBranch (ex_env [ex_repo] ex_refs) (ex_world [Picked 0, Picked 2, Typed []])) = Return ()
   \<and> filesViewContext (snd (diffBranch (ex_env [ex_repo] ex_refs)
                               (ex_world [Picked 0, Picked 2, Typed []])))
       = Some \<lparr>repo = Some ex_repo, leftRef = JStr [], rightRef = JStr ''v1'', specifiedPath = None\<rparr>
   \<and> filesViewContext (ex_world [Picked 0, Picked 2, Typed []]) = None
   \<and> map_option rightRef (filesViewContext (snd (inputRef (ex_env [ex_repo] ex_refs)
                                                (ex_world [Typed ''  abc123  '']))))
       = Some (JStr ''abc123'')
   \<and> fst (diffFile (ex_env [ex_repo] ex_refs) (Some ex_uri) (ex_world [Picked 0, Typed []])) = Return ()
   \<and> filesViewContext (snd (diffFile (ex_env [ex_repo] ex_refs) (Some ex_uri)
                               (ex_world [Picked 0, Typed []]))) = None"
  by (simp add: diffFile_def diffBranch_def inputRef_def selectGitRepo_def priv_choseBranchOnPick_def
      selectBranch_def branch_item_def showQuickPick_def getRefFromQuickPickItem_def
      showInputBox_def EnterShaPickItem_def set_filesViewContext_def ex_env_def ex_world_def
      ex_refs_def emit_def trim_def is_js_space_def ref_label_def ref_description_def Let_def)

subsection \<open>Dismissing a prompt\<close>

text \<open>
  C6. The claim fails on the code in two flows. In the input-ref flow, dismissing the
  input box makes the callback call \<open>trim\<close> on \<open>undefined\<close>: a \<open>TypeError\<close> is raised
  (the model's contexts stay as they were). In the diff-branch flow, dismissing the input
  box of a manual entry does not end the flow: a files context with the \<open>undefined\<close> ref
  is stored. The diff-file flow, by contrast, ends silently with nothing stored.
\<close>

theorem dismissed_input_box_not_silent:
  "fst (inputRef (ex_env [ex_repo] ex_refs) (ex_world [Dismissed])) = Throw TypeError
   \<and> filesViewContext (snd (inputRef (ex_env [ex_repo] ex_refs) (ex_world [Dismissed]))) = None
   \<and> fst (diffBranch (ex_env [ex_repo] ex_refs) (ex_world [Picked 0, Picked 2, Dismissed])) = Return ()
   \<and> filesViewContext (snd (diffBranch (ex_env [ex_repo] ex_refs)
                               (ex_world [Picked 0, Picked 2, Dismissed])))
       = Some \<lparr>repo = Some ex_repo, leftRef = JUndefined, rightRef = JStr ''v1'', specifiedPath = None\<rparr>
   \<and> filesViewContext (ex_world [Picked 0, Picked 2, Dismissed]) = None
   \<and> diffFile (ex_env [ex_repo] ex_refs) (Some ex_uri) (ex_world [Picked 0, Dismissed])
       = (Return (),
          (ex_world [])\<lparr>trace :=
             [QuickPickShown (selectBranch (ex_env [ex_repo] ex_refs) (Some ex_repo) True False)
                ''Select a ref to see the diff of a.ts'',
              InputBoxShown (Prompt ''Input a ref(sha1) to compare with main'')]\<rparr>)"
  by (simp add: inputRef_def diffBranch_def diffFile_def selectGitRepo_def priv_choseBranchOnPick_def
      selectBranch_def branch_item_def showQuickPick_def getRefFromQuickPickItem_def
      showInputBox_def EnterShaPickItem_def set_filesViewContext_def ex_env_def ex_world_def
      ex_refs_def ex_uri_def emit_def ref_label_def ref_description_def posix_basename_def
      Let_def)

subsection \<open>What a command stores\<close>

lemma assign_fields [simp]:
  "published (assign a f w) = published w"
  "filesViewContext (assign a f w) = filesViewContext w"
  "heap (assign a f w) = (heap w)[a := f (heap w ! a)]"
  "historyViewContext (assign a f w) = historyViewContext w"
  by (simp_all add: assign_def)

lemma priv_viewHistory_eq [simp]:
  "priv_viewHistory c all w = (out, w') \<longleftrightarrow>
     out = Return () \<and> w' = setHistoryViewContext c (w\<lparr>loadAll := all\<rparr>)"
  by (auto simp: priv_viewHistory_def)

lemma setHistoryViewContext_fields [simp]:
  "published (setHistoryViewContext c w) = published w"
  "filesViewContext (setHistoryViewContext c w) = filesViewContext w"
  "heap (setHistoryViewContext c w) = heap w"
  "historyViewContext (setHistoryViewContext c w) = c"
  by (simp_all add: setHistoryViewContext_def)

lemma new_context_fields [simp]:
  "fst (new_context c w) = length (heap w)"
  "snd (new_context c w) = w\<lparr>heap := heap w @ [c]\<rparr>"
  by (simp_all add: new_context_def)

lemma new_context_eq [simp]:
  "new_context c w = (a, w') \<longleftrightarrow> a = length (heap w) \<and> w' = w\<lparr>heap := heap w @ [c]\<rparr>"
  by (auto simp: new_context_def)








text \<open>What the prompts use up of the script.\<close>

lemma consumed_refl [simp]: "consumed w w"
  by (simp add: consumed_def)



lemma answers_fields [simp]:
  "answers (set_filesViewContext c w) = answers w"
  "answers (showErrorMessage m w) = answers w"
  by (simp_all add: set_filesViewContext_def showErrorMessage_def)










lemma published_showErrorMessage [simp]:
  "published (showErrorMessage m w) = published w"
  "filesViewContext (showErrorMessage m w) = filesViewContext w"
  by (simp_all add: showErrorMessage_def)






subsection \<open>History contexts as shared objects\<close>

lemma set_filesViewContext_fields [simp]:
  "heap (set_filesViewContext c w) = heap w"
  "historyViewContext (set_filesViewContext c w) = historyViewContext w"
  by (simp_all add: set_filesViewContext_def)

lemma showErrorMessage_fields [simp]:
  "heap (showErrorMessage m w) = heap w"
  "historyViewContext (showErrorMessage m w) = historyViewContext w"
  by (simp_all add: showErrorMessage_def)







end
